theory Spec2Isabelle
  imports Complex_Main "HOL-Library.Monad_Syntax"
begin

text \<open>
  A model of the Google Maps search tool \<open>main.py\<close>: the query formatter, the search
  client around the \<open>gomaps\<close> collaborator, the CSV exporter with its file-name
  sanitizer, and the argument validation of the command-line driver. The collaborator,
  the clock, the file system and Python's character tables are parameters. Messages
  printed to the console are left out; what a message evaluates on the way (the
  \<open>len(results)\<close> of the progress line) is kept, since it can raise.
\<close>

section \<open>Strings, numbers and the character tables\<close>

text \<open>
  A Python \<open>str\<close> is a sequence of Unicode code points, so a string is a list of
  code points (natural numbers). String literals of the source are written
  \<open>lit ''...''\<close>.
\<close>

type_synonym pystr = "nat list"

definition lit :: "string \<Rightarrow> pystr" where
  "lit s = map of_char s"

abbreviation space :: nat where "space \<equiv> 32"
abbreviation hyphen :: nat where "hyphen \<equiv> 45"
abbreviation underscore :: nat where "underscore \<equiv> 95"

text \<open>
  \<open>str.lower\<close> and the class \<open>\w\<close> of \<open>re\<close> consult the Unicode tables of the
  Python runtime, which are no part of the repository: they are a parameter.
  \<open>isalnum U c\<close> is \<open>chr(c).isalnum()\<close>, \<open>lower U s\<close> is \<open>s.lower()\<close> (a function
  of the whole string: one code point may become several, and the capital sigma
  depends on its neighbours).
\<close>

record ucd =
  isalnum :: "nat \<Rightarrow> bool"
  lower :: "pystr \<Rightarrow> pystr"

text \<open>\<open>\w\<close> in a \<open>str\<close> pattern: alphanumeric, or the underscore.\<close>

definition is_word :: "ucd \<Rightarrow> nat \<Rightarrow> bool" where
  "is_word U c \<longleftrightarrow> isalnum U c \<or> c = underscore"

text \<open>The tables on ASCII: digits and letters; \<open>A\<close>..\<open>Z\<close> go to \<open>a\<close>..\<open>z\<close>.\<close>

definition ascii_isalnum :: "nat \<Rightarrow> bool" where
  "ascii_isalnum c \<longleftrightarrow> (48 \<le> c \<and> c \<le> 57) \<or> (65 \<le> c \<and> c \<le> 90) \<or> (97 \<le> c \<and> c \<le> 122)"

definition ascii_lower :: "nat \<Rightarrow> nat" where
  "ascii_lower c = (if 65 \<le> c \<and> c \<le> 90 then c + 32 else c)"

definition is_ascii :: "pystr \<Rightarrow> bool" where
  "is_ascii s \<longleftrightarrow> list_all (\<lambda>c. c < 128) s"

text \<open>What every Python runtime guarantees of its tables on ASCII text.\<close>

definition ascii_compatible :: "ucd \<Rightarrow> bool" where
  "ascii_compatible U \<longleftrightarrow>
     (\<forall>c. c < 128 \<longrightarrow> isalnum U c = ascii_isalnum c) \<and>
     (\<forall>s. is_ascii s \<longrightarrow> lower U s = map ascii_lower s)"

text \<open>
  What \<open>str.lower\<close> guarantees on all text: every character it produces is its own
  lower case, and a string whose characters are all their own lower case is left as
  it is.
\<close>

definition lower_stable :: "ucd \<Rightarrow> bool" where
  "lower_stable U \<longleftrightarrow>
     (\<forall>x. list_all (\<lambda>c. lower U [c] = [c]) (lower U x)) \<and>
     (\<forall>x. list_all (\<lambda>c. lower U [c] = [c]) x \<longrightarrow> lower U x = x)"

text \<open>
  The rows of CPython's tables for ASCII and for four further code points:
  U+00C9 and U+00E9 (LATIN CAPITAL and SMALL LETTER E WITH ACUTE) are letters, the
  second the lower case of the first; U+0130 (LATIN CAPITAL LETTER I WITH DOT ABOVE)
  is a letter whose lower case is the two code points U+0069 U+0307; U+0307
  (COMBINING DOT ABOVE) is a mark, not alphanumeric, and its own lower case. Every
  other code point is taken as not alphanumeric and as its own lower case, so the
  fragment is used at ASCII, at these four code points and at symbols such as
  U+2615 (HOT BEVERAGE) only.
\<close>

definition ucd_fragment :: ucd where
  "ucd_fragment =
     \<lparr> isalnum = (\<lambda>c. ascii_isalnum c \<or> c = 0xC9 \<or> c = 0xE9 \<or> c = 0x130),
       lower = (\<lambda>s. concat (map (\<lambda>c.
         if c = 0x130 then [0x69, 0x307] else if c = 0xC9 then [0xE9] else [ascii_lower c]) s)) \<rparr>"

text \<open>\<open>str(n)\<close> and \<open>f"{n}"\<close> for an integer: its decimal digits, with a sign.\<close>

fun str_nat :: "nat \<Rightarrow> pystr" where
  "str_nat n = (if n < 10 then [48 + n] else str_nat (n div 10) @ [48 + n mod 10])"

definition str_int :: "int \<Rightarrow> pystr" where
  "str_int i = (if i < 0 then hyphen # str_nat (nat (- i)) else str_nat (nat i))"

section \<open>sanitize_filename\<close>

text \<open>\<open>filename.replace(' ', '-')\<close>\<close>

definition replace_spaces :: "pystr \<Rightarrow> pystr" where
  "replace_spaces s = map (\<lambda>c. if c = space then hyphen else c) s"

text \<open>\<open>re.sub(r'[^\w\-]', '', filename)\<close>\<close>

definition remove_special :: "ucd \<Rightarrow> pystr \<Rightarrow> pystr" where
  "remove_special U s = filter (\<lambda>c. is_word U c \<or> c = hyphen) s"

text \<open>\<open>re.sub(r'-+', '-', filename)\<close>: every run of hyphens becomes one hyphen.\<close>

fun collapse_hyphens :: "pystr \<Rightarrow> pystr" where
  "collapse_hyphens (a # b # s) =
     (if a = hyphen \<and> b = hyphen then collapse_hyphens (b # s)
      else a # collapse_hyphens (b # s))"
| "collapse_hyphens s = s"

text \<open>\<open>filename.strip('-')\<close>\<close>

definition strip_hyphens :: "pystr \<Rightarrow> pystr" where
  "strip_hyphens s =
     rev (dropWhile (\<lambda>c. c = hyphen) (rev (dropWhile (\<lambda>c. c = hyphen) s)))"

definition sanitize_filename :: "ucd \<Rightarrow> pystr \<Rightarrow> pystr" where
  "sanitize_filename U filename =
     strip_hyphens (collapse_hyphens (lower U (remove_special U (replace_spaces filename))))"

section \<open>format_location_query\<close>

text \<open>
  An optional argument is \<open>None\<close> or a value; \<open>if zip_code:\<close> and \<open>if distance:\<close>
  test Python truthiness: \<open>None\<close>, the empty string and \<open>0\<close> are false.
\<close>

fun truthy_str :: "pystr option \<Rightarrow> bool" where
  "truthy_str None = False"
| "truthy_str (Some s) = (s \<noteq> [])"

fun truthy_int :: "int option \<Rightarrow> bool" where
  "truthy_int None = False"
| "truthy_int (Some i) = (i \<noteq> 0)"

definition format_location_query :: "pystr \<Rightarrow> pystr option \<Rightarrow> int option \<Rightarrow> pystr" where
  "format_location_query base_query zip_code distance =
     (if truthy_str zip_code then
        (let query = base_query @ lit '' near '' @ the zip_code in
         if truthy_int distance then
           base_query @ lit '' within '' @ str_int (the distance) @ lit '' miles of '' @ the zip_code
         else query)
      else base_query)"

section \<open>Values, place handles and the search collaborator\<close>

text \<open>
  The values that travel through the pipeline are dynamically typed. A place record
  is a \<open>dict\<close> with string keys, kept as an association list and read with \<open>map_of\<close>.
  A \<open>float\<close> is carried as the rational number it denotes; tuples and lists are both
  \<open>VTuple\<close>.
\<close>

datatype pyval =
    VNone
  | VStr pystr
  | VInt int
  | VFloat rat
  | VTuple "pyval list"
  | VDict "(pystr \<times> pyval) list"

type_synonym pydict = "(pystr \<times> pyval) list"

text \<open>
  Exceptions, instances of \<open>Exception\<close>: the ones the interpreter raises in this
  code, and whatever the collaborator raises, carried by its message.
\<close>

datatype exn =
  AttributeError | TypeError | IndexError | KeyError | UnicodeEncodeError | External pystr

fun truthy :: "pyval \<Rightarrow> bool" where
  "truthy VNone = False"
| "truthy (VStr s) = (s \<noteq> [])"
| "truthy (VInt i) = (i \<noteq> 0)"
| "truthy (VFloat x) = (x \<noteq> 0)"
| "truthy (VTuple vs) = (vs \<noteq> [])"
| "truthy (VDict d) = (d \<noteq> [])"

text \<open>\<open>d.get(key, default)\<close> on a dict.\<close>

definition dict_get :: "pydict \<Rightarrow> pystr \<Rightarrow> pyval \<Rightarrow> pyval" where
  "dict_get d key dflt = (case map_of d key of Some v \<Rightarrow> v | None \<Rightarrow> dflt)"

text \<open>\<open>v.get(key, default)\<close> on any value: only a dict has the method.\<close>

fun py_get :: "pyval \<Rightarrow> pystr \<Rightarrow> pyval \<Rightarrow> exn + pyval" where
  "py_get (VDict d) key dflt = Inr (dict_get d key dflt)"
| "py_get v key dflt = Inl AttributeError"

text \<open>
  \<open>v[i]\<close> for a small index \<open>i\<close>: a sequence gives its item or IndexError, a string its
  character, a dict looks up the key \<open>i\<close>, which a dict with string keys does not
  have, and nothing else is subscriptable.
\<close>

fun subscript :: "pyval \<Rightarrow> nat \<Rightarrow> exn + pyval" where
  "subscript (VTuple vs) i = (if i < length vs then Inr (vs ! i) else Inl IndexError)"
| "subscript (VStr s) i = (if i < length s then Inr (VStr [s ! i]) else Inl IndexError)"
| "subscript (VDict d) i = Inl KeyError"
| "subscript v i = Inl TypeError"

text \<open>Sequencing of steps that may raise: the first exception ends the block.\<close>

fun attempt :: "exn + 'a \<Rightarrow> ('a \<Rightarrow> exn + 'b) \<Rightarrow> exn + 'b" where
  "attempt (Inl e) f = Inl e"
| "attempt (Inr v) f = f v"

text \<open>
  A place handle of the collaborator: what \<open>place.get_values()\<close> does when called,
  and the attributes \<open>title\<close>, \<open>url\<close> and \<open>coords\<close>, each of which the handle may lack
  (the field is \<open>None\<close> where \<open>hasattr\<close> is false).
\<close>

record place =
  get_values :: "exn + pydict"
  title :: "pyval option"
  url :: "pyval option"
  coords :: "pyval option"

text \<open>
  What \<open>gomaps.maps_search\<close> does: it raises, returns \<open>None\<close>, or returns places,
  either as a list or as an object that can be iterated but has no \<open>__len__\<close>. Such an
  object is true in a condition, whatever it holds, and \<open>len\<close> of it raises TypeError.
\<close>

datatype search_outcome =
  SearchRaises exn | SearchNone | SearchList "place list" | SearchUnsized "place list"

text \<open>
  The world outside the program: the date of the clock as \<open>strftime("%Y%m%d")\<close> prints
  it, whether a file of a given name can be opened for writing, and the collaborator,
  called with the query and the page number (the delay and the logging flag are
  constants of the call).
\<close>

record env =
  date_stamp :: pystr
  can_open :: "pystr \<Rightarrow> bool"
  maps_search :: "pystr \<Rightarrow> int \<Rightarrow> search_outcome"

section \<open>search_places\<close>

text \<open>The fallback record of the \<open>except\<close> branch.\<close>

definition basic_data :: "place \<Rightarrow> pydict" where
  "basic_data p =
     [(lit ''title'', (case title p of Some v \<Rightarrow> v | None \<Rightarrow> VStr [])),
      (lit ''url'', (case url p of Some v \<Rightarrow> v | None \<Rightarrow> VStr [])),
      (lit ''coords'', (case coords p of Some v \<Rightarrow> v | None \<Rightarrow> VTuple [VStr [], VStr []])),
      (lit ''address'', VStr []),
      (lit ''website'', VStr []),
      (lit ''phone_number'', VStr []),
      (lit ''rating'', VStr []),
      (lit ''open_hours'', VDict [])]"

text \<open>The inner \<open>try\<close>: the record appended for one place.\<close>

definition populate :: "place \<Rightarrow> pydict" where
  "populate p = (case get_values p of Inr place_data \<Rightarrow> place_data | Inl e \<Rightarrow> basic_data p)"

text \<open>
  The \<open>for\<close> loop. Every pass first formats the progress line, which takes
  \<open>len(results)\<close>: \<open>len_results\<close> is what that gives, a number or an exception that ends
  the loop. Then it appends, and leaves once \<open>len(populated_results) >= max_results\<close>.
\<close>

fun search_loop ::
  "int \<Rightarrow> exn + nat \<Rightarrow> place list \<Rightarrow> pydict list \<Rightarrow> exn + pydict list" where
  "search_loop max_results len_results [] populated_results = Inr populated_results"
| "search_loop max_results len_results (p # ps) populated_results =
     (case len_results of
        Inl e \<Rightarrow> Inl e
      | Inr n \<Rightarrow>
          let populated_results = populated_results @ [populate p] in
          if int (length populated_results) \<ge> max_results then Inr populated_results
          else search_loop max_results len_results ps populated_results)"

text \<open>
  The outer \<open>try\<close> turns an exception, of the collaborator or of the loop, into the
  empty list; \<open>if not results\<close> does the same for \<open>None\<close> and for an empty list.
\<close>

definition search_places :: "env \<Rightarrow> pystr \<Rightarrow> int \<Rightarrow> int \<Rightarrow> pydict list" where
  "search_places E query page_num max_results =
     (case maps_search E query page_num of
        SearchRaises e \<Rightarrow> []
      | SearchNone \<Rightarrow> []
      | SearchList results \<Rightarrow>
          if results = [] then []
          else (case search_loop max_results (Inr (length results)) results [] of
                  Inl e \<Rightarrow> []
                | Inr populated_results \<Rightarrow> populated_results)
      | SearchUnsized results \<Rightarrow>
          (case search_loop max_results (Inl TypeError) results [] of
             Inl e \<Rightarrow> []
           | Inr populated_results \<Rightarrow> populated_results))"

section \<open>export_to_csv\<close>

definition fieldnames :: "pystr list" where
  "fieldnames =
     [lit ''Place Name'',
      lit ''Address'',
      lit ''Latitude'',
      lit ''Longitude'',
      lit ''Phone Number'',
      lit ''Website'',
      lit ''Rating'',
      lit ''Google Maps URL'',
      lit ''Current Hours Status'',
      lit ''Monday Hours'',
      lit ''Tuesday Hours'',
      lit ''Wednesday Hours'',
      lit ''Thursday Hours'',
      lit ''Friday Hours'',
      lit ''Saturday Hours'',
      lit ''Sunday Hours'']"

text \<open>
  \<open>csv.DictWriter\<close> writes, for each of its field names in order, the value the row
  has under that name (\<open>restval\<close>, the empty string, when it has none). A written row is
  the list of these values; how the \<open>csv\<close> module quotes them is not modelled.
\<close>

definition dict_to_list :: "pystr list \<Rightarrow> pydict \<Rightarrow> pyval list" where
  "dict_to_list names row = map (\<lambda>name. dict_get row name (VStr [])) names"

text \<open>\<open>writer.writeheader()\<close> writes the field names themselves.\<close>

definition header :: "pyval list" where
  "header = map VStr fieldnames"

text \<open>The body of the \<open>for\<close> loop: the row written for one result, or the exception.\<close>

definition csv_row :: "pydict \<Rightarrow> exn + pyval list" where
  "csv_row result =
     (let coords = dict_get result (lit ''coords'') (VTuple [VStr [], VStr []]) in
      attempt (if truthy coords then subscript coords 0 else Inr (VStr [])) (\<lambda>lat.
      attempt (if truthy coords then subscript coords 1 else Inr (VStr [])) (\<lambda>lon.
      let open_hours = dict_get result (lit ''open_hours'') (VDict []) in
      attempt (py_get open_hours (lit ''Hours'') (VDict [])) (\<lambda>hours_dict.
      attempt (py_get open_hours (lit ''Currently'') (VStr [])) (\<lambda>current_status.
      attempt (py_get hours_dict (lit ''Monday'') (VStr [])) (\<lambda>monday.
      attempt (py_get hours_dict (lit ''Tuesday'') (VStr [])) (\<lambda>tuesday.
      attempt (py_get hours_dict (lit ''Wednesday'') (VStr [])) (\<lambda>wednesday.
      attempt (py_get hours_dict (lit ''Thursday'') (VStr [])) (\<lambda>thursday.
      attempt (py_get hours_dict (lit ''Friday'') (VStr [])) (\<lambda>friday.
      attempt (py_get hours_dict (lit ''Saturday'') (VStr [])) (\<lambda>saturday.
      attempt (py_get hours_dict (lit ''Sunday'') (VStr [])) (\<lambda>sunday.
      Inr (dict_to_list fieldnames
        [(lit ''Place Name'', dict_get result (lit ''title'') (VStr [])),
         (lit ''Address'', dict_get result (lit ''address'') (VStr [])),
         (lit ''Latitude'', lat),
         (lit ''Longitude'', lon),
         (lit ''Phone Number'', dict_get result (lit ''phone_number'') (VStr [])),
         (lit ''Website'', dict_get result (lit ''website'') (VStr [])),
         (lit ''Rating'', dict_get result (lit ''rating'') (VStr [])),
         (lit ''Google Maps URL'', dict_get result (lit ''url'') (VStr [])),
         (lit ''Current Hours Status'', current_status),
         (lit ''Monday Hours'', monday),
         (lit ''Tuesday Hours'', tuesday),
         (lit ''Wednesday Hours'', wednesday),
         (lit ''Thursday Hours'', thursday),
         (lit ''Friday Hours'', friday),
         (lit ''Saturday Hours'', saturday),
         (lit ''Sunday Hours'', sunday)])))))))))))))"

text \<open>
  The file is opened with \<open>encoding='utf-8'\<close>. The writer takes a string cell as it is
  and every other value through \<open>str\<close>, which escapes what it cannot print; so the text
  of a row can be encoded unless a string cell holds a surrogate code point (U+D800 to
  U+DFFF). For such a row the write raises UnicodeEncodeError and nothing of the row
  reaches the file.
\<close>

fun cell_encodable :: "pyval \<Rightarrow> bool" where
  "cell_encodable (VStr s) = list_all (\<lambda>c. \<not> (0xD800 \<le> c \<and> c \<le> 0xDFFF)) s"
| "cell_encodable v = True"

definition writerow :: "pyval list \<Rightarrow> pyval list list \<Rightarrow> exn + pyval list list" where
  "writerow row written =
     (if list_all cell_encodable row then Inr (written @ [row]) else Inl UnicodeEncodeError)"

text \<open>
  The loop over the results, with the rows written so far: it ends at the first
  exception, of \<open>csv_row\<close> or of the write, which leaves the rows before it in the file.
\<close>

fun write_rows :: "pydict list \<Rightarrow> pyval list list \<Rightarrow> pyval list list \<times> exn option" where
  "write_rows [] written = (written, None)"
| "write_rows (result # results) written =
     (case csv_row result of
        Inl e \<Rightarrow> (written, Some e)
      | Inr row \<Rightarrow>
          (case writerow row written of
             Inl e \<Rightarrow> (written, Some e)
           | Inr written \<Rightarrow> write_rows results written))"

text \<open>
  The files of the working directory: a name has the rows written to it. The function
  returns the file name or \<open>None\<close>, and the files after the call. \<open>open(filename, 'w')\<close>
  creates or truncates the file, or fails and leaves the files as they were.
\<close>

type_synonym files = "pystr \<rightharpoonup> pyval list list"

definition export_to_csv ::
  "ucd \<Rightarrow> env \<Rightarrow> files \<Rightarrow> pydict list \<Rightarrow> pystr \<Rightarrow> pystr option \<times> files" where
  "export_to_csv U E fs results query_string =
     (if results = [] then (None, fs)
      else
        let sanitized_query = sanitize_filename U query_string;
            filename = date_stamp E @ lit ''_'' @ sanitized_query @ lit ''.csv''
        in
          if \<not> can_open E filename then (None, fs)
          else
            (case writerow header [] of
               Inl e \<Rightarrow> (None, fs(filename \<mapsto> []))
             | Inr written \<Rightarrow>
                 (case write_rows results written of
                    (written, Some e) \<Rightarrow> (None, fs(filename \<mapsto> written))
                  | (written, None) \<Rightarrow> (Some filename, fs(filename \<mapsto> written)))))"

section \<open>main\<close>

text \<open>The parsed command line: \<open>--zip\<close> and \<open>--distance\<close> are \<open>None\<close> when not given.\<close>

record args =
  query :: pystr
  zip_code :: "pystr option"
  distance :: "int option"
  max_results :: int
  page :: int

text \<open>
  What a run did: the exit status of the process, the calls of \<open>search_places\<close> it
  made (query, page, maximum), the file name \<open>export_to_csv\<close> returned, and the files
  after the run. \<open>parser.error\<close> prints the usage message and exits with status 2; a run
  that reaches the end of \<open>main\<close> exits with status 0. Console output is not modelled.
\<close>

record run =
  exit_status :: int
  search_calls :: "(pystr \<times> int \<times> int) list"
  csv_file :: "pystr option"
  files_after :: files

definition parser_error :: "files \<Rightarrow> run" where
  "parser_error fs = \<lparr> exit_status = 2, search_calls = [], csv_file = None, files_after = fs \<rparr>"

definition main :: "ucd \<Rightarrow> env \<Rightarrow> files \<Rightarrow> args \<Rightarrow> run" where
  "main U E fs a =
     (if truthy_int (distance a) \<and> \<not> truthy_str (zip_code a) then parser_error fs
      else if max_results a \<le> 0 then parser_error fs
      else if page a \<le> 0 then parser_error fs
      else
        let formatted_query = format_location_query (query a) (zip_code a) (distance a);
            results = search_places E formatted_query (page a) (max_results a);
            calls = [(formatted_query, page a, max_results a)]
        in
          if results \<noteq> [] then
            (case export_to_csv U E fs results (query a) of
               (csv, fs') \<Rightarrow>
                 \<lparr> exit_status = 0, search_calls = calls, csv_file = csv, files_after = fs' \<rparr>)
          else \<lparr> exit_status = 0, search_calls = calls, csv_file = None, files_after = fs \<rparr>)"

section \<open>The documented behaviour, and sample inputs\<close>




text \<open>A string without two hyphens in a row.\<close>

fun no_double :: "pystr \<Rightarrow> bool" where
  "no_double (a # b # s) = (\<not> (a = hyphen \<and> b = hyphen) \<and> no_double (b # s))"
| "no_double s = True"

text \<open>The documented default of a missing field: the empty string.\<close>

definition or_empty :: "pyval option \<Rightarrow> pyval" where
  "or_empty v = (case v of Some x \<Rightarrow> x | None \<Rightarrow> VStr [])"

text \<open>
  Sample inputs: a place record with every field, a handle that delivers it, a handle
  whose \<open>get_values\<close> raises and that has a title only, and a world in which the
  collaborator answers every search with a given outcome, the date is 2024-01-31 and
  every file can be opened.
\<close>

definition cafe :: pydict where
  "cafe =
     [(lit ''title'', VStr (lit ''Cafe Uno'')),
      (lit ''url'', VStr (lit ''https://maps.example/1'')),
      (lit ''coords'', VTuple [VFloat (81 / 2), VFloat (- 74)]),
      (lit ''address'', VStr (lit ''1 Main St'')),
      (lit ''website'', VStr (lit ''cafe.example'')),
      (lit ''phone_number'', VStr (lit ''555-0100'')),
      (lit ''rating'', VFloat (9 / 2)),
      (lit ''open_hours'', VDict
         [(lit ''Currently'', VStr (lit ''Open'')),
          (lit ''Hours'', VDict
             [(lit ''Monday'', VStr (lit ''8-17'')),
              (lit ''Tuesday'', VStr (lit ''8-18'')),
              (lit ''Wednesday'', VStr (lit ''8-19'')),
              (lit ''Thursday'', VStr (lit ''8-20'')),
              (lit ''Friday'', VStr (lit ''8-21'')),
              (lit ''Saturday'', VStr (lit ''9-22'')),
              (lit ''Sunday'', VStr (lit ''Closed''))])])]"


definition place_full :: place where
  "place_full =
     \<lparr> get_values = Inr cafe,
       title = Some (VStr (lit ''Cafe Uno'')),
       url = Some (VStr (lit ''https://maps.example/1'')),
       coords = Some (VTuple [VFloat (81 / 2), VFloat (- 74)]) \<rparr>"


definition world :: "search_outcome \<Rightarrow> env" where
  "world outcome =
     \<lparr> date_stamp = lit ''20240131'',
       can_open = (\<lambda>filename. True),
       maps_search = (\<lambda>query page_num. outcome) \<rparr>"

section \<open>The query formatter\<close>

text \<open>
  Claim C1, as amended. The formatter returns the base query unchanged when the ZIP
  code is absent or is the empty string, whatever the distance; for a non-empty ZIP
  code \<open>z\<close> and no distance it returns \<open>"{q} near {z}"\<close>; for a non-empty ZIP code
  \<open>z\<close> and a non-zero distance \<open>d\<close> it returns \<open>"{q} within {d} miles of {z}"\<close>.
\<close>

theorem format_location_query_cases:
  assumes "z \<noteq> []" and "d \<noteq> 0"
  shows "format_location_query q None dopt = q
    \<and> format_location_query q (Some []) dopt = q
    \<and> format_location_query q (Some z) None = q @ lit '' near '' @ z
    \<and> format_location_query q (Some z) (Some d) = q @ lit '' within '' @ str_int d @ lit '' miles of '' @ z"
  using assms by (simp add: format_location_query_def)

theorem format_location_query_cases_witness:
  "lit ''94025'' \<noteq> [] \<and> (10::int) \<noteq> 0
   \<and> format_location_query (lit ''hiking trails'') None (Some 10) = lit ''hiking trails''
   \<and> format_location_query (lit ''hiking trails'') (Some []) (Some 10) = lit ''hiking trails''
   \<and> format_location_query (lit ''hiking trails'') (Some (lit ''94025'')) None = lit ''hiking trails near 94025''
   \<and> format_location_query (lit ''hiking trails'') (Some (lit ''94025'')) (Some 10)
       = lit ''hiking trails within 10 miles of 94025''"
proof -
  have z: "lit ''94025'' \<noteq> []" by (simp add: lit_def)
  have d: "(10::int) \<noteq> 0" by simp
  have s: "str_int 10 = lit ''10''" by (simp add: str_int_def lit_def)
  show ?thesis
    using format_location_query_cases [OF z d, of "lit ''hiking trails''" "Some 10"] z s
    by (simp add: lit_def)
qed

text \<open>
  The claim as stated fails for a ZIP code that is present and empty: \<open>if zip_code:\<close>
  is false for it, and the query comes back without \<open>" near "\<close>.
\<close>

theorem format_location_query_empty_zip_counterexample:
  "format_location_query (lit ''pizza'') (Some []) None \<noteq> lit ''pizza'' @ lit '' near '' @ []"
  by (simp add: format_location_query_def lit_def)

section \<open>The search client\<close>











text \<open>
  Claim C6. When the collaborator raises, returns \<open>None\<close> or returns no places,
  \<open>search_places\<close> returns the empty list: the exception does not leave the function.
\<close>

theorem search_places_no_results:
  assumes "maps_search E q p = SearchRaises e \<or> maps_search E q p = SearchNone
    \<or> maps_search E q p = SearchList []"
  shows "search_places E q p m = []"
  using assms by (auto simp: search_places_def)

theorem search_places_no_results_witness:
  "search_places (world (SearchRaises (External (lit ''blocked'')))) (lit ''pizza'') 1 20 = []
   \<and> search_places (world SearchNone) (lit ''pizza'') 1 20 = []
   \<and> search_places (world (SearchList [])) (lit ''pizza'') 1 20 = []"
  using search_places_no_results [of "world (SearchRaises (External (lit ''blocked'')))" "lit ''pizza''" 1 "External (lit ''blocked'')" 20]
    search_places_no_results [of "world SearchNone" "lit ''pizza''" 1 e 20]
    search_places_no_results [of "world (SearchList [])" "lit ''pizza''" 1 e 20]
  by (simp add: world_def)

section \<open>The CSV exporter\<close>

text \<open>
  Claim C7. For every query string, \<open>export_to_csv\<close> on an empty list of results
  returns \<open>None\<close> and leaves the files as they were: no file is created.
\<close>

theorem export_to_csv_empty: "export_to_csv U E fs [] query_string = (None, fs)"
  by (simp add: export_to_csv_def)

text \<open>
  The row the writer emits is the values of the row dict in the order of the field
  names, 16 of them. The header can always be encoded. When every result has a row
  and every row can be encoded, the loop writes all of them, in order.
\<close>

lemma dict_to_list_row:
  "dict_to_list fieldnames
     [(lit ''Place Name'', v1), (lit ''Address'', v2), (lit ''Latitude'', v3),
      (lit ''Longitude'', v4), (lit ''Phone Number'', v5), (lit ''Website'', v6),
      (lit ''Rating'', v7), (lit ''Google Maps URL'', v8),
      (lit ''Current Hours Status'', v9), (lit ''Monday Hours'', v10),
      (lit ''Tuesday Hours'', v11), (lit ''Wednesday Hours'', v12),
      (lit ''Thursday Hours'', v13), (lit ''Friday Hours'', v14),
      (lit ''Saturday Hours'', v15), (lit ''Sunday Hours'', v16)]
   = [v1, v2, v3, v4, v5, v6, v7, v8, v9, v10, v11, v12, v13, v14, v15, v16]"
  by (simp add: dict_to_list_def fieldnames_def dict_get_def lit_def)





lemma writerow_header: "writerow header [] = Inr [header]"
  by (simp add: writerow_def header_def fieldnames_def lit_def)

lemma write_rows_all:
  "list_all2 (\<lambda>r row. csv_row r = Inr row) results rows \<Longrightarrow>
   list_all (list_all cell_encodable) rows \<Longrightarrow>
   write_rows results written = (written @ rows, None)"
proof (induction results rows arbitrary: written rule: list_all2_induct)
  case Nil
  show ?case by simp
next
  case (Cons r results row rows)
  from Cons.prems have "list_all cell_encodable row" "list_all (list_all cell_encodable) rows"
    by simp_all
  with Cons.hyps(1) Cons.IH [of "written @ [row]"] show ?case
    by (simp add: writerow_def)
qed

lemma export_to_csv_rows:
  assumes "results \<noteq> []"
    and "can_open E (date_stamp E @ lit ''_'' @ sanitize_filename U q @ lit ''.csv'')"
    and "list_all2 (\<lambda>r row. csv_row r = Inr row) results rows"
    and "list_all (list_all cell_encodable) rows"
  shows "export_to_csv U E fs results q =
      (Some (date_stamp E @ lit ''_'' @ sanitize_filename U q @ lit ''.csv''),
       fs(date_stamp E @ lit ''_'' @ sanitize_filename U q @ lit ''.csv'' \<mapsto> header # rows))"
proof -
  have w: "write_rows results [header] = ([header] @ rows, None)"
    using assms(3,4) by (rule write_rows_all)
  show ?thesis
    using assms(1,2) by (simp add: export_to_csv_def Let_def writerow_header w)
qed









text \<open>
  Claim C8. Every field defaults on its own. The Latitude and Longitude columns are
  the empty string when \<open>coords\<close> is missing or \<open>None\<close>, and the two coordinates when
  it is a pair; the Current Hours Status column and the seven weekday columns are the
  entries of \<open>open_hours\<close> and of its \<open>Hours\<close>, or the empty string for each entry that
  is missing, so all eight are empty when \<open>open_hours\<close> is missing or is the empty
  dict; every other column has the record's field, or the empty string when the
  record lacks it. These rows are the ones written to the file, in order, when the
  file can be opened and the rows can be encoded.
\<close>

theorem csv_row_defaults:
  assumes "map_of r (lit ''coords'') = None \<or> map_of r (lit ''coords'') = Some VNone
      \<or> map_of r (lit ''coords'') = Some (VTuple [la, lo])"
    and "map_of r (lit ''open_hours'') = None \<and> oh = []
      \<or> map_of r (lit ''open_hours'') = Some (VDict oh)"
    and "map_of oh (lit ''Hours'') = None \<and> h = []
      \<or> map_of oh (lit ''Hours'') = Some (VDict h)"
  shows "csv_row r = Inr
      [or_empty (map_of r (lit ''title'')),
       or_empty (map_of r (lit ''address'')),
       (if map_of r (lit ''coords'') = Some (VTuple [la, lo]) then la else VStr []),
       (if map_of r (lit ''coords'') = Some (VTuple [la, lo]) then lo else VStr []),
       or_empty (map_of r (lit ''phone_number'')),
       or_empty (map_of r (lit ''website'')),
       or_empty (map_of r (lit ''rating'')),
       or_empty (map_of r (lit ''url'')),
       or_empty (map_of oh (lit ''Currently'')),
       or_empty (map_of h (lit ''Monday'')),
       or_empty (map_of h (lit ''Tuesday'')),
       or_empty (map_of h (lit ''Wednesday'')),
       or_empty (map_of h (lit ''Thursday'')),
       or_empty (map_of h (lit ''Friday'')),
       or_empty (map_of h (lit ''Saturday'')),
       or_empty (map_of h (lit ''Sunday''))]
    \<and> or_empty None = VStr []
    \<and> (results \<noteq> []
        \<and> can_open E (date_stamp E @ lit ''_'' @ sanitize_filename U q @ lit ''.csv'')
        \<and> list_all2 (\<lambda>r row. csv_row r = Inr row) results rows
        \<and> list_all (list_all cell_encodable) rows
       \<longrightarrow> export_to_csv U E fs results q =
            (Some (date_stamp E @ lit ''_'' @ sanitize_filename U q @ lit ''.csv''),
             fs(date_stamp E @ lit ''_'' @ sanitize_filename U q @ lit ''.csv'' \<mapsto> header # rows)))"
proof -
  have row: "csv_row r = Inr
      [or_empty (map_of r (lit ''title'')),
       or_empty (map_of r (lit ''address'')),
       (if map_of r (lit ''coords'') = Some (VTuple [la, lo]) then la else VStr []),
       (if map_of r (lit ''coords'') = Some (VTuple [la, lo]) then lo else VStr []),
       or_empty (map_of r (lit ''phone_number'')),
       or_empty (map_of r (lit ''website'')),
       or_empty (map_of r (lit ''rating'')),
       or_empty (map_of r (lit ''url'')),
       or_empty (map_of oh (lit ''Currently'')),
       or_empty (map_of h (lit ''Monday'')),
       or_empty (map_of h (lit ''Tuesday'')),
       or_empty (map_of h (lit ''Wednesday'')),
       or_empty (map_of h (lit ''Thursday'')),
       or_empty (map_of h (lit ''Friday'')),
       or_empty (map_of h (lit ''Saturday'')),
       or_empty (map_of h (lit ''Sunday''))]"
    using assms unfolding csv_row_def dict_to_list_row
    by (auto simp: dict_get_def or_empty_def)
  have written: "export_to_csv U E fs results q =
            (Some (date_stamp E @ lit ''_'' @ sanitize_filename U q @ lit ''.csv''),
             fs(date_stamp E @ lit ''_'' @ sanitize_filename U q @ lit ''.csv'' \<mapsto> header # rows))"
    if "results \<noteq> []"
      "can_open E (date_stamp E @ lit ''_'' @ sanitize_filename U q @ lit ''.csv'')"
      "list_all2 (\<lambda>r row. csv_row r = Inr row) results rows"
      "list_all (list_all cell_encodable) rows"
    using that by (rule export_to_csv_rows)
  from row written show ?thesis by (simp add: or_empty_def)
qed


theorem csv_row_defaults_witness:
  "csv_row [(lit ''title'', VStr (lit ''Bar Due'')), (lit ''coords'', VNone),
            (lit ''open_hours'', VDict [])]
     = Inr [VStr (lit ''Bar Due''), VStr [], VStr [], VStr [], VStr [], VStr [], VStr [],
            VStr [], VStr [], VStr [], VStr [], VStr [], VStr [], VStr [], VStr [], VStr []]
   \<and> csv_row [(lit ''coords'', VTuple [VFloat (3 / 2), VFloat (5 / 2)])]
     = Inr [VStr [], VStr [], VFloat (3 / 2), VFloat (5 / 2), VStr [], VStr [], VStr [],
            VStr [], VStr [], VStr [], VStr [], VStr [], VStr [], VStr [], VStr [], VStr []]
   \<and> csv_row [(lit ''open_hours'', VDict [(lit ''Hours'', VDict [(lit ''Monday'', VStr (lit ''9-17''))])])]
     = Inr [VStr [], VStr [], VStr [], VStr [], VStr [], VStr [], VStr [],
            VStr [], VStr [], VStr (lit ''9-17''), VStr [], VStr [], VStr [], VStr [], VStr [], VStr []]
   \<and> export_to_csv ucd_fragment (world SearchNone) Map.empty
        [[(lit ''title'', VStr (lit ''Bar Due'')), (lit ''coords'', VNone), (lit ''open_hours'', VDict [])],
         [(lit ''coords'', VTuple [VFloat (3 / 2), VFloat (5 / 2)])]]
        (lit ''bars'')
     = (Some (lit ''20240131_bars.csv''),
        [lit ''20240131_bars.csv'' \<mapsto>
          [header,
           [VStr (lit ''Bar Due''), VStr [], VStr [], VStr [], VStr [], VStr [], VStr [],
            VStr [], VStr [], VStr [], VStr [], VStr [], VStr [], VStr [], VStr [], VStr []],
           [VStr [], VStr [], VFloat (3 / 2), VFloat (5 / 2), VStr [], VStr [], VStr [],
            VStr [], VStr [], VStr [], VStr [], VStr [], VStr [], VStr [], VStr [], VStr []]]])"
proof -
  let ?r1 = "[(lit ''title'', VStr (lit ''Bar Due'')), (lit ''coords'', VNone),
            (lit ''open_hours'', VDict [])]"
  let ?r2 = "[(lit ''coords'', VTuple [VFloat (3 / 2), VFloat (5 / 2)])]"
  let ?r3 = "[(lit ''open_hours'', VDict [(lit ''Hours'', VDict [(lit ''Monday'', VStr (lit ''9-17''))])])]"
  let ?row1 = "[VStr (lit ''Bar Due''), VStr [], VStr [], VStr [], VStr [], VStr [], VStr [],
            VStr [], VStr [], VStr [], VStr [], VStr [], VStr [], VStr [], VStr [], VStr []]"
  let ?row2 = "[VStr [], VStr [], VFloat (3 / 2), VFloat (5 / 2), VStr [], VStr [], VStr [],
            VStr [], VStr [], VStr [], VStr [], VStr [], VStr [], VStr [], VStr [], VStr []]"
  have a: "csv_row ?r1 = Inr ?row1"
    using csv_row_defaults [of ?r1 la lo "[]" "[]"]
    by (simp add: lit_def or_empty_def)
  have b: "csv_row ?r2 = Inr ?row2"
    using csv_row_defaults [of ?r2 "VFloat (3 / 2)" "VFloat (5 / 2)" "[]" "[]"]
    by (simp add: lit_def or_empty_def)
  have c: "csv_row ?r3 = Inr [VStr [], VStr [], VStr [], VStr [], VStr [], VStr [], VStr [],
            VStr [], VStr [], VStr (lit ''9-17''), VStr [], VStr [], VStr [], VStr [], VStr [], VStr []]"
    using csv_row_defaults [of ?r3 la lo "[(lit ''Hours'', VDict [(lit ''Monday'', VStr (lit ''9-17''))])]"
      "[(lit ''Monday'', VStr (lit ''9-17''))]"]
    by (simp add: lit_def or_empty_def)
  have n: "date_stamp (world SearchNone) @ lit ''_'' @ sanitize_filename ucd_fragment (lit ''bars'') @ lit ''.csv''
      = lit ''20240131_bars.csv''"
    by (simp add: world_def sanitize_filename_def strip_hyphens_def remove_special_def
      replace_spaces_def is_word_def ucd_fragment_def ascii_isalnum_def ascii_lower_def lit_def)
  have o: "can_open (world SearchNone)
      (date_stamp (world SearchNone) @ lit ''_'' @ sanitize_filename ucd_fragment (lit ''bars'') @ lit ''.csv'')"
    by (simp add: world_def)
  have e: "list_all (list_all cell_encodable) [?row1, ?row2]" by (simp add: lit_def)
  have "export_to_csv ucd_fragment (world SearchNone) Map.empty [?r1, ?r2] (lit ''bars'')
     = (Some (date_stamp (world SearchNone) @ lit ''_'' @ sanitize_filename ucd_fragment (lit ''bars'') @ lit ''.csv''),
        [date_stamp (world SearchNone) @ lit ''_'' @ sanitize_filename ucd_fragment (lit ''bars'') @ lit ''.csv''
           \<mapsto> header # [?row1, ?row2]])"
    using csv_row_defaults [of ?r1 la lo "[]" "[]" "[?r1, ?r2]" "world SearchNone" ucd_fragment "lit ''bars''"
        "[?row1, ?row2]" Map.empty] a b o e
    by (simp add: lit_def)
  then have f: "export_to_csv ucd_fragment (world SearchNone) Map.empty [?r1, ?r2] (lit ''bars'')
     = (Some (lit ''20240131_bars.csv''), [lit ''20240131_bars.csv'' \<mapsto> header # [?row1, ?row2]])"
    unfolding n .
  from a b c f show ?thesis by simp
qed

section \<open>Filename sanitization\<close>

text \<open>
  The last two steps, whatever they are given: the result of \<open>collapse_hyphens\<close> has no
  two hyphens in a row, and \<open>strip_hyphens\<close> returns a middle part of its argument
  that neither begins nor ends with a hyphen; what they drop is hyphens.
\<close>

lemma set_collapse_hyphens: "set (collapse_hyphens s) = set s"
  by (induction s rule: collapse_hyphens.induct) auto

lemma hd_collapse_hyphens: "collapse_hyphens (a # s) = a # tl (collapse_hyphens (a # s))"
  by (induction "a # s" arbitrary: a s rule: collapse_hyphens.induct) auto

lemma no_double_collapse: "no_double (collapse_hyphens s)"
proof (induction s rule: collapse_hyphens.induct)
  case (1 a b s)
  then show ?case
    using hd_collapse_hyphens [of b s] by (cases "collapse_hyphens (b # s)") auto
qed auto

lemma collapse_fixed: "no_double s \<Longrightarrow> collapse_hyphens s = s"
  by (induction s rule: collapse_hyphens.induct) auto

lemma no_double_tl: "no_double (x # s) \<Longrightarrow> no_double s"
  by (cases s) auto

lemma no_double_suffix: "no_double (a @ b) \<Longrightarrow> no_double b"
  by (induction a) (auto dest: no_double_tl)

lemma no_double_prefix: "no_double (a @ b) \<Longrightarrow> no_double a"
  by (induction a rule: no_double.induct) auto

lemma no_double_append: "no_double (a @ b) \<Longrightarrow> no_double a \<and> no_double b"
  using no_double_prefix no_double_suffix by blast


lemma strip_prefix: "\<exists>t. dropWhile P s = rev (dropWhile P (rev (dropWhile P s))) @ t"
  by (metis rev_append rev_rev_ident takeWhile_dropWhile_id)

lemma strip_split: "\<exists>a b. s = a @ strip_hyphens s @ b"
  unfolding strip_hyphens_def
  by (metis strip_prefix takeWhile_dropWhile_id)

lemma no_double_strip: "no_double s \<Longrightarrow> no_double (strip_hyphens s)"
  using strip_split [of s] no_double_append by metis

lemma set_strip: "set (strip_hyphens s) \<subseteq> set s"
  using strip_split [of s] by (metis Un_upper1 Un_upper2 set_append subset_trans)

lemma strip_not_first: "strip_hyphens s \<noteq> hyphen # t"
proof
  assume a: "strip_hyphens s = hyphen # t"
  obtain u where "dropWhile (\<lambda>c. c = hyphen) s = strip_hyphens s @ u"
    unfolding strip_hyphens_def using strip_prefix by blast
  with a have "dropWhile (\<lambda>c. c = hyphen) s = hyphen # (t @ u)" by simp
  then show False by (metis (mono_tags, lifting) hd_dropWhile list.sel(1) list.distinct(1))
qed

lemma strip_not_last: "strip_hyphens s \<noteq> t @ [hyphen]"
proof
  assume a: "strip_hyphens s = t @ [hyphen]"
  then have "dropWhile (\<lambda>c. c = hyphen) (rev (dropWhile (\<lambda>c. c = hyphen) s)) = hyphen # rev t"
    unfolding strip_hyphens_def by (metis rev.simps(2) rev_rev_ident rev_append append_Nil rev_singleton_conv rev_swap)
  then show False by (metis (mono_tags, lifting) hd_dropWhile list.sel(1) list.distinct(1))
qed

lemma strip_fixed:
  assumes a: "\<forall>t. s \<noteq> hyphen # t" and b: "\<forall>t. s \<noteq> t @ [hyphen]"
  shows "strip_hyphens s = s"
proof -
  have 1: "dropWhile (\<lambda>c. c = hyphen) s = s" using a by (cases s) auto
  have 2: "dropWhile (\<lambda>c. c = hyphen) (rev s) = rev s"
  proof (cases "rev s")
    case Nil then show ?thesis by simp
  next
    case (Cons x xs)
    then have "s = rev xs @ [x]" by (metis rev.simps(2) rev_rev_ident)
    with b have "x \<noteq> hyphen" by auto
    with Cons show ?thesis by simp
  qed
  show ?thesis by (simp add: strip_hyphens_def 1 2)
qed



lemma strip_split_hyphens:
  "\<exists>a b. s = a @ strip_hyphens s @ b \<and> list_all (\<lambda>c. c = hyphen) a \<and> list_all (\<lambda>c. c = hyphen) b"
proof -
  let ?P = "\<lambda>c. c = hyphen"
  let ?d = "dropWhile ?P s"
  have 1: "s = takeWhile ?P s @ ?d" by simp
  have "rev (takeWhile ?P (rev ?d) @ dropWhile ?P (rev ?d))
      = rev (dropWhile ?P (rev ?d)) @ rev (takeWhile ?P (rev ?d))"
    by (rule rev_append)
  then have "rev (rev ?d) = rev (dropWhile ?P (rev ?d)) @ rev (takeWhile ?P (rev ?d))"
    by (simp only: takeWhile_dropWhile_id)
  then have 2: "?d = strip_hyphens s @ rev (takeWhile ?P (rev ?d))"
    by (simp only: rev_rev_ident strip_hyphens_def)
  have 3: "list_all ?P (takeWhile ?P s)"
    by (auto simp: list_all_iff dest: set_takeWhileD)
  have 4: "list_all ?P (rev (takeWhile ?P (rev ?d)))"
    by (auto simp: list_all_iff dest: set_takeWhileD)
  from 1 2 have "s = takeWhile ?P s @ strip_hyphens s @ rev (takeWhile ?P (rev ?d))" by simp
  with 3 4 show ?thesis by blast
qed

lemma set_strip_sup: "set s \<subseteq> insert hyphen (set (strip_hyphens s))"
proof -
  obtain a b where s: "s = a @ strip_hyphens s @ b"
    and a: "list_all (\<lambda>c. c = hyphen) a" and b: "list_all (\<lambda>c. c = hyphen) b"
    using strip_split_hyphens by blast
  have "set s = set a \<union> set (strip_hyphens s) \<union> set b"
    using s by (metis set_append sup_assoc)
  with a b show ?thesis by (auto simp: list_all_iff)
qed

lemma sanitize_no_double: "no_double (sanitize_filename U s)"
  unfolding sanitize_filename_def by (rule no_double_strip) (rule no_double_collapse)

lemma sanitize_set_sub:
  "set (sanitize_filename U s) \<subseteq> set (lower U (remove_special U (replace_spaces s)))"
  unfolding sanitize_filename_def using set_strip set_collapse_hyphens by blast

lemma sanitize_set_sup:
  "set (lower U (remove_special U (replace_spaces s))) \<subseteq> insert hyphen (set (sanitize_filename U s))"
  unfolding sanitize_filename_def using set_strip_sup set_collapse_hyphens by blast

lemma space_not_word: "ascii_compatible U \<Longrightarrow> \<not> is_word U space"
  by (simp add: ascii_compatible_def is_word_def ascii_isalnum_def)

lemma lower_hyphen: "ascii_compatible U \<Longrightarrow> lower U [hyphen] = [hyphen]"
  by (simp add: ascii_compatible_def is_ascii_def ascii_lower_def)

text \<open>
  With tables that are regular in the sense of \<open>lower_stable\<close>, a string of word
  characters and hyphens that \<open>lower\<close> leaves alone, without double, leading or
  trailing hyphens, is a fixed point; and the result for a string that \<open>lower\<close> leaves
  alone consists of word characters and hyphens.
\<close>

lemma lower_stable_output:
  "lower_stable U \<Longrightarrow> list_all (\<lambda>c. lower U [c] = [c]) (lower U x)"
  unfolding lower_stable_def by blast

lemma lower_stable_fixed:
  "lower_stable U \<Longrightarrow> list_all (\<lambda>c. lower U [c] = [c]) x \<Longrightarrow> lower U x = x"
  unfolding lower_stable_def by blast

lemma sanitize_fixed:
  assumes "ascii_compatible U" "lower_stable U"
    and w: "list_all (\<lambda>c. is_word U c \<or> c = hyphen) y"
    and f: "list_all (\<lambda>c. lower U [c] = [c]) y"
    and "no_double y" "\<forall>t. y \<noteq> hyphen # t" "\<forall>t. y \<noteq> t @ [hyphen]"
  shows "sanitize_filename U y = y"
proof -
  have "space \<notin> set y"
    using w space_not_word [OF assms(1)] by (auto simp: list_all_iff)
  then have 1: "replace_spaces y = y"
    unfolding replace_spaces_def by (intro map_idI) auto
  have 2: "remove_special U y = y"
    using w unfolding remove_special_def list_all_iff by simp
  have 3: "lower U y = y"
    using assms(2) f by (rule lower_stable_fixed)
  show ?thesis
    by (simp add: sanitize_filename_def 1 2 3 collapse_fixed [OF assms(5)]
      strip_fixed [OF assms(6) assms(7)])
qed

lemma sanitize_output_fixed:
  assumes "lower_stable U"
  shows "list_all (\<lambda>c. lower U [c] = [c]) (sanitize_filename U s)"
proof -
  have "list_all (\<lambda>c. lower U [c] = [c]) (lower U (remove_special U (replace_spaces s)))"
    using assms by (rule lower_stable_output)
  with sanitize_set_sub [of U s] show ?thesis by (auto simp: list_all_iff)
qed

lemma sanitize_words_of_fixed:
  assumes "ascii_compatible U" "lower_stable U"
    and f: "list_all (\<lambda>c. lower U [c] = [c]) y"
  shows "list_all (\<lambda>c. is_word U c \<or> c = hyphen) (sanitize_filename U y)"
proof -
  let ?k = "remove_special U (replace_spaces y)"
  have "list_all (\<lambda>c. lower U [c] = [c]) (replace_spaces y)"
    using f lower_hyphen [OF assms(1)] by (auto simp: replace_spaces_def list_all_iff)
  then have "list_all (\<lambda>c. lower U [c] = [c]) ?k"
    by (auto simp: remove_special_def list_all_iff)
  then have "lower U ?k = ?k" using assms(2) lower_stable_fixed by blast
  with sanitize_set_sub [of U y] have "set (sanitize_filename U y) \<subseteq> set ?k" by simp
  then show ?thesis by (auto simp: remove_special_def list_all_iff)
qed

text \<open>The sample tables are regular, and agree with the ASCII tables on ASCII.\<close>

lemma fragment_lower_char:
  "lower ucd_fragment [c] = (if c = 0x130 then [0x69, 0x307] else if c = 0xC9 then [0xE9] else [ascii_lower c])"
  by (simp add: ucd_fragment_def)

lemma fragment_lower_Cons:
  "lower ucd_fragment (c # x) = lower ucd_fragment [c] @ lower ucd_fragment x"
  by (simp add: ucd_fragment_def)

lemma fragment_output_char:
  "list_all (\<lambda>d. lower ucd_fragment [d] = [d]) (lower ucd_fragment [c])"
  by (simp add: fragment_lower_char ascii_lower_def)

lemma lower_stable_fragment: "lower_stable ucd_fragment"
  unfolding lower_stable_def
proof (intro conjI allI impI)
  fix x
  show "list_all (\<lambda>c. lower ucd_fragment [c] = [c]) (lower ucd_fragment x)"
  proof (induction x)
    case Nil
    show ?case by (simp add: ucd_fragment_def)
  next
    case (Cons c x)
    from fragment_output_char [of c] Cons show ?case
      unfolding fragment_lower_Cons [of c x] by simp
  qed
next
  fix x
  assume "list_all (\<lambda>c. lower ucd_fragment [c] = [c]) x"
  then show "lower ucd_fragment x = x"
  proof (induction x)
    case Nil
    show ?case by (simp add: ucd_fragment_def)
  next
    case (Cons c x)
    then have "lower ucd_fragment [c] = [c]" "lower ucd_fragment x = x" by simp_all
    then show ?case unfolding fragment_lower_Cons [of c x] by simp
  qed
qed

lemma is_ascii_lower_frag:
  "is_ascii s \<Longrightarrow> lower ucd_fragment s = map ascii_lower s"
  by (induction s) (auto simp: is_ascii_def ucd_fragment_def)

lemma fragment_isalnum: "c < 128 \<Longrightarrow> isalnum ucd_fragment c = ascii_isalnum c"
  by (simp add: ucd_fragment_def)

lemma ascii_compatible_fragment: "ascii_compatible ucd_fragment"
  unfolding ascii_compatible_def
  by (simp add: is_ascii_lower_frag fragment_isalnum)


lemmas sanitize_eval = sanitize_filename_def strip_hyphens_def remove_special_def
  replace_spaces_def is_word_def ucd_fragment_def ascii_isalnum_def ascii_lower_def lit_def


text \<open>
  Claim C9, as amended. \<open>sanitize_filename (sanitize_filename s)\<close> equals
  \<open>sanitize_filename s\<close> exactly for the strings \<open>s\<close> for which \<open>lower\<close>, applied to the
  characters the filter keeps, yields word characters and hyphens only. This
  holds for every table that agrees with ASCII on ASCII and is regular.
\<close>

theorem sanitize_filename_idempotent_iff:
  assumes "ascii_compatible U" and "lower_stable U"
  shows "sanitize_filename U (sanitize_filename U s) = sanitize_filename U s
    \<longleftrightarrow> list_all (\<lambda>c. is_word U c \<or> c = hyphen)
          (lower U (remove_special U (replace_spaces s)))"
proof
  let ?y = "sanitize_filename U s"
  let ?z = "lower U (remove_special U (replace_spaces s))"
  assume i: "sanitize_filename U ?y = ?y"
  have "list_all (\<lambda>c. is_word U c \<or> c = hyphen) (sanitize_filename U ?y)"
    using assms sanitize_output_fixed [OF assms(2)] by (rule sanitize_words_of_fixed)
  with i have "list_all (\<lambda>c. is_word U c \<or> c = hyphen) ?y" by simp
  with sanitize_set_sup [of U s] show "list_all (\<lambda>c. is_word U c \<or> c = hyphen) ?z"
    by (auto simp: list_all_iff)
next
  let ?y = "sanitize_filename U s"
  let ?z = "lower U (remove_special U (replace_spaces s))"
  assume "list_all (\<lambda>c. is_word U c \<or> c = hyphen) ?z"
  with sanitize_set_sub [of U s] have w: "list_all (\<lambda>c. is_word U c \<or> c = hyphen) ?y"
    by (auto simp: list_all_iff)
  have f: "\<forall>t. ?y \<noteq> hyphen # t" unfolding sanitize_filename_def using strip_not_first by blast
  have l: "\<forall>t. ?y \<noteq> t @ [hyphen]" unfolding sanitize_filename_def using strip_not_last by blast
  show "sanitize_filename U ?y = ?y"
    using assms w sanitize_output_fixed [OF assms(2)] sanitize_no_double f l
    by (rule sanitize_fixed)
qed

theorem sanitize_filename_idempotent_iff_witness:
  "ascii_compatible ucd_fragment \<and> lower_stable ucd_fragment
   \<and> list_all (\<lambda>c. is_word ucd_fragment c \<or> c = hyphen)
        (lower ucd_fragment (remove_special ucd_fragment
           (replace_spaces (lit ''  Caf'' @ [0xC9] @ lit '' -- Shops!! '' @ [0x2615]))))
   \<and> sanitize_filename ucd_fragment (lit ''  Caf'' @ [0xC9] @ lit '' -- Shops!! '' @ [0x2615])
       = lit ''caf'' @ [0xE9] @ lit ''-shops''
   \<and> sanitize_filename ucd_fragment
        (sanitize_filename ucd_fragment (lit ''  Caf'' @ [0xC9] @ lit '' -- Shops!! '' @ [0x2615]))
       = sanitize_filename ucd_fragment (lit ''  Caf'' @ [0xC9] @ lit '' -- Shops!! '' @ [0x2615])
   \<and> \<not> list_all (\<lambda>c. is_word ucd_fragment c \<or> c = hyphen)
        (lower ucd_fragment (remove_special ucd_fragment (replace_spaces [0x130])))"
proof -
  let ?s = "lit ''  Caf'' @ [0xC9] @ lit '' -- Shops!! '' @ [0x2615]"
  have k: "list_all (\<lambda>c. is_word ucd_fragment c \<or> c = hyphen)
        (lower ucd_fragment (remove_special ucd_fragment (replace_spaces ?s)))"
    by (simp add: sanitize_eval)
  have v: "sanitize_filename ucd_fragment ?s = lit ''caf'' @ [0xE9] @ lit ''-shops''"
    by (simp add: sanitize_eval)
  have n: "\<not> list_all (\<lambda>c. is_word ucd_fragment c \<or> c = hyphen)
        (lower ucd_fragment (remove_special ucd_fragment (replace_spaces [0x130])))"
    by (simp add: sanitize_eval)
  have "sanitize_filename ucd_fragment (sanitize_filename ucd_fragment ?s)
      = sanitize_filename ucd_fragment ?s"
    using sanitize_filename_idempotent_iff [OF ascii_compatible_fragment lower_stable_fragment, of ?s] k
    by blast
  with k v n ascii_compatible_fragment lower_stable_fragment show ?thesis by blast
qed

text \<open>
  The claim as stated fails for the one-character string U+0130: the letter passes the
  filter, \<open>lower\<close> turns it into \<open>i\<close> followed by the combining dot U+0307, and a second
  pass removes the dot, which is no word character.
\<close>

theorem sanitize_filename_not_idempotent_counterexample:
  "sanitize_filename ucd_fragment [0x130] = [0x69, 0x307]
   \<and> sanitize_filename ucd_fragment (sanitize_filename ucd_fragment [0x130]) = [0x69]
   \<and> sanitize_filename ucd_fragment (sanitize_filename ucd_fragment [0x130])
       \<noteq> sanitize_filename ucd_fragment [0x130]"
  by (simp add: sanitize_eval)




section \<open>The command-line driver\<close>

text \<open>
  Claim C4, as amended. For every invocation where a non-zero distance is given
  without a ZIP code (none, or the empty string), or \<open>max_results \<le> 0\<close>, or
  \<open>page \<le> 0\<close>, \<open>main\<close> ends in \<open>parser.error\<close>: the exit status is 2, \<open>search_places\<close> is
  never called and no file is written.
\<close>

theorem main_rejects_invalid_arguments:
  assumes "(distance a = Some d \<and> d \<noteq> 0 \<and> (zip_code a = None \<or> zip_code a = Some []))
    \<or> max_results a \<le> 0 \<or> page a \<le> 0"
  shows "exit_status (main U E fs a) = 2 \<and> search_calls (main U E fs a) = []
    \<and> csv_file (main U E fs a) = None \<and> files_after (main U E fs a) = fs"
  using assms by (auto simp: main_def parser_error_def)

theorem main_rejects_invalid_arguments_witness:
  "exit_status (main ucd_fragment (world (SearchList [place_full])) Map.empty
      \<lparr> query = lit ''pizza'', zip_code = None, distance = Some 10, max_results = 20, page = 1 \<rparr>) = 2
   \<and> search_calls (main ucd_fragment (world (SearchList [place_full])) Map.empty
      \<lparr> query = lit ''pizza'', zip_code = None, distance = Some 10, max_results = 20, page = 1 \<rparr>) = []
   \<and> search_calls (main ucd_fragment (world (SearchList [place_full])) Map.empty
      \<lparr> query = lit ''pizza'', zip_code = Some (lit ''10001''), distance = None, max_results = 0, page = 1 \<rparr>) = []
   \<and> search_calls (main ucd_fragment (world (SearchList [place_full])) Map.empty
      \<lparr> query = lit ''pizza'', zip_code = Some (lit ''10001''), distance = None, max_results = 20, page = - 1 \<rparr>) = []"
  using
    main_rejects_invalid_arguments [of
      "\<lparr> query = lit ''pizza'', zip_code = None, distance = Some 10, max_results = 20, page = 1 \<rparr>"
      10 ucd_fragment "world (SearchList [place_full])" Map.empty]
    main_rejects_invalid_arguments [of
      "\<lparr> query = lit ''pizza'', zip_code = Some (lit ''10001''), distance = None, max_results = 0, page = 1 \<rparr>"
      10 ucd_fragment "world (SearchList [place_full])" Map.empty]
    main_rejects_invalid_arguments [of
      "\<lparr> query = lit ''pizza'', zip_code = Some (lit ''10001''), distance = None, max_results = 20, page = - 1 \<rparr>"
      10 ucd_fragment "world (SearchList [place_full])" Map.empty]
  by simp

text \<open>
  The claim as stated fails for \<open>--distance 0\<close> without \<open>--zip\<close>: \<open>if args.distance\<close> is
  false for 0, the arguments pass, and the search is made.
\<close>

theorem main_distance_zero_counterexample:
  "search_calls (main ucd_fragment (world SearchNone) Map.empty
      \<lparr> query = lit ''pizza'', zip_code = None, distance = Some 0, max_results = 20, page = 1 \<rparr>)
     = [(lit ''pizza'', 1, 20)]
   \<and> exit_status (main ucd_fragment (world SearchNone) Map.empty
      \<lparr> query = lit ''pizza'', zip_code = None, distance = Some 0, max_results = 20, page = 1 \<rparr>) = 0"
  by (simp add: main_def format_location_query_def search_places_def world_def)

end
